theory Spec2Isabelle
  imports Main "HOL-Library.Sublist"
begin

section \<open>nanoclaw-sidecar: the HTTP to IPC bridge of \<^verbatim>\<open>src/main.py\<close>\<close>

subsection \<open>Strings\<close>

text \<open>
  A Python \<^verbatim>\<open>str\<close> is a sequence of code points. Python allows every code point
  from 0 to 0x10FFFF in a string, the UTF-16 surrogates 0xD800 to 0xDFFF included.
  A string literal of the source is written \<open>py ''...''\<close>.
\<close>

type_synonym pystr = "nat list"

definition py :: "string \<Rightarrow> pystr" where
  "py s = map of_char s"

definition valid_str :: "pystr \<Rightarrow> bool" where
  "valid_str s = (\<forall>c \<in> set s. c < 0x110000)"

definition high_surrogate :: "nat \<Rightarrow> bool" where
  "high_surrogate c = (0xD800 \<le> c \<and> c \<le> 0xDBFF)"

definition low_surrogate :: "nat \<Rightarrow> bool" where
  "low_surrogate c = (0xDC00 \<le> c \<and> c \<le> 0xDFFF)"

text \<open>A high surrogate immediately followed by a low surrogate, as two code points.\<close>

fun surrogate_pair_free :: "pystr \<Rightarrow> bool" where
  "surrogate_pair_free [] = True"
| "surrogate_pair_free [c] = True"
| "surrogate_pair_free (c # d # s) =
     (\<not> (high_surrogate c \<and> low_surrogate d) \<and> surrogate_pair_free (d # s))"

text \<open>\<^verbatim>\<open>str(n)\<close> for an integer: decimal digits, a minus sign for a negative number.\<close>

function str_nat :: "nat \<Rightarrow> pystr" where
  "str_nat n = (if n < 10 then [48 + n] else str_nat (n div 10) @ [48 + n mod 10])"
  by pat_completeness auto
termination
  by (relation "measure id") auto

definition str_int :: "int \<Rightarrow> pystr" where
  "str_int i = (if i < 0 then 45 # str_nat (nat (- i)) else str_nat (nat i))"

subsection \<open>Paths and the filesystem\<close>

text \<open>
  A \<^verbatim>\<open>pathlib.Path\<close>: the root (\<open>/\<close> for an absolute path, empty for a relative
  one) and the names below it. \<^verbatim>\<open>p / name\<close> appends a name; the four names the
  source appends hold no slash.
\<close>

datatype path = Path (root: pystr) (names: "pystr list")

definition truediv :: "path \<Rightarrow> pystr \<Rightarrow> path" where
  "truediv p name = Path (root p) (names p @ [name])"

definition parent :: "path \<Rightarrow> path" where
  "parent p = Path (root p) (butlast (names p))"

fun join :: "pystr \<Rightarrow> pystr list \<Rightarrow> pystr" where
  "join sep [] = []"
| "join sep [x] = x"
| "join sep (x # y # xs) = x @ sep @ join sep (y # xs)"

definition str_path :: "path \<Rightarrow> pystr" where
  "str_path p =
     (if root p = [] \<and> names p = [] then py ''.''
      else root p @ join (py ''/'') (names p))"

text \<open>
  The filesystem holds a node at each path that exists: a regular file with its text,
  or a directory. \<^verbatim>\<open>Path.exists\<close> is true of both kinds of node.
  \<^verbatim>\<open>write_text\<close> creates or truncates the file; it raises \<^verbatim>\<open>OSError\<close> when
  the parent is not a directory or the path is a directory itself. Permissions and
  device errors are not part of the model.
\<close>

datatype node = File pystr | Dir

type_synonym filesystem = "path \<rightharpoonup> node"

datatype exn =
    HTTPException nat pystr
  | OSError
  | JSONDecodeError
  | NotStrDict
  | RequestValidationError

definition path_exists :: "filesystem \<Rightarrow> path \<Rightarrow> bool" where
  "path_exists fs p = (fs p \<noteq> None)"

definition read_text :: "filesystem \<Rightarrow> path \<Rightarrow> exn + pystr" where
  "read_text fs p =
     (case fs p of
        None \<Rightarrow> Inl OSError
      | Some Dir \<Rightarrow> Inl OSError
      | Some (File txt) \<Rightarrow> Inr txt)"

definition write_text :: "filesystem \<Rightarrow> path \<Rightarrow> pystr \<Rightarrow> exn + filesystem" where
  "write_text fs p txt =
     (if fs (parent p) = Some Dir \<and> fs p \<noteq> Some Dir
      then Inr (fs(p \<mapsto> File txt))
      else Inl OSError)"

subsection \<open>\<^verbatim>\<open>json.dumps\<close> on a dictionary of strings\<close>

text \<open>
  The standard library's encoder with its default arguments (\<^verbatim>\<open>ensure_ascii\<close> on,
  separators \<^verbatim>\<open>", "\<close> and \<^verbatim>\<open>": "\<close>), on a \<^verbatim>\<open>dict\<close> from \<^verbatim>\<open>str\<close> to
  \<^verbatim>\<open>str\<close>, given as the list of its items in insertion order.
  \<open>hex4 n\<close> is \<^verbatim>\<open>'{0:04x}'.format(n)\<close> for \<open>n < 0x10000\<close>.
  The encoder's \<^verbatim>\<open>0xd800 | ((n >> 10) & 0x3ff)\<close> and \<^verbatim>\<open>0xdc00 | (n & 0x3ff)\<close>
  are written with \<open>div\<close>, \<open>mod\<close> and \<open>+\<close>.
\<close>

text \<open>
  Characters are written by their code points: 34 is the double quote, 92 the backslash,
  47 the slash, 32 the blank, 58 the colon, 44 the comma, 123 and 125 the braces,
  48 to 57 the digits, 97 to 102 the letters a to f, 65 to 70 the letters A to F, and
  98, 102, 110, 114, 116, 117 the letters b, f, n, r, t, u of the escapes.
\<close>

definition hexdigit :: "nat \<Rightarrow> nat" where
  "hexdigit d = (if d < 10 then 48 + d else 87 + d)"

definition hex4 :: "nat \<Rightarrow> pystr" where
  "hex4 n = [hexdigit (n div 4096 mod 16), hexdigit (n div 256 mod 16),
             hexdigit (n div 16 mod 16), hexdigit (n mod 16)]"

text \<open>
  The replacement of one code point: the short escapes of the quote, the backslash and
  the five control characters, the code point itself from the blank to the tilde, and
  \<^verbatim>\<open>\uXXXX\<close> for the rest, twice (a surrogate pair) above 0xFFFF.
\<close>

definition escape_char :: "nat \<Rightarrow> pystr" where
  "escape_char c =
     (if c = 34 then [92, 34]
      else if c = 92 then [92, 92]
      else if c = 8 then [92, 98]
      else if c = 12 then [92, 102]
      else if c = 10 then [92, 110]
      else if c = 13 then [92, 114]
      else if c = 9 then [92, 116]
      else if 32 \<le> c \<and> c \<le> 126 then [c]
      else if c < 0x10000 then 92 # 117 # hex4 c
      else (let n = c - 0x10000
            in 92 # 117 # hex4 (0xD800 + n div 1024 mod 1024) @
               92 # 117 # hex4 (0xDC00 + n mod 1024)))"

definition encode_basestring_ascii :: "pystr \<Rightarrow> pystr" where
  "encode_basestring_ascii s = 34 # concat (map escape_char s) @ [34]"

definition dumps_item :: "pystr \<times> pystr \<Rightarrow> pystr" where
  "dumps_item kv =
     encode_basestring_ascii (fst kv) @ py '': '' @ encode_basestring_ascii (snd kv)"

definition json_dumps :: "(pystr \<times> pystr) list \<Rightarrow> pystr" where
  "json_dumps items = py ''{'' @ join (py '', '') (map dumps_item items) @ py ''}''"

subsection \<open>\<^verbatim>\<open>json.loads\<close> on a flat object of strings\<close>

text \<open>
  The standard library's decoder on the texts the bridge deals with: an object whose
  values are string literals. \<open>scanstring\<close> reads a string literal from behind its
  opening quote and returns the string with the rest of the text; it rejects control
  characters and unknown escapes, and joins a \<^verbatim>\<open>\uXXXX\<close> escape of a high surrogate
  with a directly following \<^verbatim>\<open>\uXXXX\<close> escape of a low surrogate into one code point.
  \<open>JSONDecodeError\<close> is the decoder's exception. \<open>NotStrDict\<close> marks a text that leaves
  the model: where an object or a string value is expected something else stands, and
  the source either raises or returns a value that is not a \<^verbatim>\<open>dict\<close> of strings.
\<close>

text \<open>The value of a hexadecimal digit, and of the four digits of an escape.\<close>

definition hexval :: "nat \<Rightarrow> nat option" where
  "hexval c =
     (if 48 \<le> c \<and> c \<le> 57 then Some (c - 48)
      else if 97 \<le> c \<and> c \<le> 102 then Some (c - 87)
      else if 65 \<le> c \<and> c \<le> 70 then Some (c - 55)
      else None)"

fun decode_hex4 :: "pystr \<Rightarrow> (nat \<times> pystr) option" where
  "decode_hex4 (a # b # c # d # rest) =
     (case (hexval a, hexval b, hexval c, hexval d) of
        (Some x, Some y, Some z, Some w) \<Rightarrow> Some (((x * 16 + y) * 16 + z) * 16 + w, rest)
      | _ \<Rightarrow> None)"
| "decode_hex4 s = None"

text \<open>The decoder's table \<^verbatim>\<open>BACKSLASH\<close> of the escapes of one letter.\<close>

definition backslash :: "nat \<Rightarrow> nat option" where
  "backslash e =
     (if e = 34 then Some 34
      else if e = 92 then Some 92
      else if e = 47 then Some 47
      else if e = 98 then Some 8
      else if e = 102 then Some 12
      else if e = 110 then Some 10
      else if e = 114 then Some 13
      else if e = 116 then Some 9
      else None)"

text \<open>One more code point in front of the string that the rest of the scan returns.\<close>

definition prepend :: "nat \<Rightarrow> (pystr \<times> pystr) option \<Rightarrow> (pystr \<times> pystr) option" where
  "prepend c r = (case r of None \<Rightarrow> None | Some (t, rest) \<Rightarrow> Some (c # t, rest))"

text \<open>The remaining text is shorter after every escape, which makes the scan terminate.\<close>

lemma decode_hex4_length: "decode_hex4 s = Some (u, r) \<Longrightarrow> length s = length r + 4"
  by (induction s rule: decode_hex4.induct) (auto split: option.splits)

function scanstring :: "pystr \<Rightarrow> (pystr \<times> pystr) option" where
  "scanstring [] = None"
| "scanstring (c # s) =
     (if c = 34 then Some ([], s)
      else if c = 92 then
        (case s of
           [] \<Rightarrow> None
         | e # s1 \<Rightarrow>
             if e = 117 then
               (case decode_hex4 s1 of
                  None \<Rightarrow> None
                | Some (uni, s2) \<Rightarrow>
                    if high_surrogate uni \<and> take 2 s2 = [92, 117] then
                      (case decode_hex4 (drop 2 s2) of
                         None \<Rightarrow> None
                       | Some (uni2, s3) \<Rightarrow>
                           if low_surrogate uni2
                           then prepend (0x10000 + (uni - 0xD800) * 1024 + (uni2 - 0xDC00))
                                  (scanstring s3)
                           else prepend uni (scanstring s2))
                    else prepend uni (scanstring s2))
             else
               (case backslash e of
                  None \<Rightarrow> None
                | Some ch \<Rightarrow> prepend ch (scanstring s1)))
      else if c < 32 then None
      else prepend c (scanstring s))"
  by pat_completeness auto
termination
  by (relation "measure length") (auto dest!: decode_hex4_length)

text \<open>The decoder's \<^verbatim>\<open>WHITESPACE\<close>: blanks, tabs, line feeds and carriage returns.\<close>

definition skip_ws :: "pystr \<Rightarrow> pystr" where
  "skip_ws s = dropWhile (\<lambda>c. c = 32 \<or> c = 9 \<or> c = 10 \<or> c = 13) s"

text \<open>
  One member of an object, from the opening quote of its name: the name, a colon and a
  string value, with whitespace allowed around the colon.
\<close>

definition parse_item :: "pystr \<Rightarrow> exn + ((pystr \<times> pystr) \<times> pystr)" where
  "parse_item s =
     (case s of
        [] \<Rightarrow> Inl JSONDecodeError
      | c # s1 \<Rightarrow>
          if c \<noteq> 34 then Inl JSONDecodeError
          else
            (case scanstring s1 of
               None \<Rightarrow> Inl JSONDecodeError
             | Some (key, s2) \<Rightarrow>
                 (case skip_ws s2 of
                    [] \<Rightarrow> Inl JSONDecodeError
                  | c2 # s3 \<Rightarrow>
                      if c2 \<noteq> 58 then Inl JSONDecodeError
                      else
                        (case skip_ws s3 of
                           [] \<Rightarrow> Inl JSONDecodeError
                         | c3 # s4 \<Rightarrow>
                             if c3 \<noteq> 34 then Inl NotStrDict
                             else
                               (case scanstring s4 of
                                  None \<Rightarrow> Inl JSONDecodeError
                                | Some (val, s5) \<Rightarrow> Inr ((key, val), s5))))))"

lemma prepend_Some: "prepend c r = Some (t, rest) \<Longrightarrow> \<exists>t'. r = Some (t', rest)"
  by (auto simp: prepend_def split: option.splits)

lemma scanstring_length: "scanstring s = Some (t, r) \<Longrightarrow> length r < length s"
proof (induction s arbitrary: t rule: scanstring.induct)
  case 1
  then show ?case by simp
next
  case (2 c s)
  show ?case
  proof (cases "c = 34")
    case True
    with "2.prems" show ?thesis by simp
  next
    case c34: False
    show ?thesis
    proof (cases "c = 92")
      case False
      with c34 "2.prems" have c32: "\<not> c < 32" and "prepend c (scanstring s) = Some (t, r)"
        by (simp_all split: if_splits)
      then obtain t' where "scanstring s = Some (t', r)"
        by (blast dest: prepend_Some)
      with "2.IH"(5) c34 False c32 show ?thesis
        by fastforce
    next
      case c92: True
      with "2.prems" obtain e s1 where s: "s = e # s1"
        by (cases s) simp_all
      show ?thesis
      proof (cases "e = 117")
        case False
        with c92 s "2.prems" obtain ch where ch: "backslash e = Some ch"
          and "prepend ch (scanstring s1) = Some (t, r)"
          by (auto split: option.splits)
        then obtain t' where "scanstring s1 = Some (t', r)"
          by (blast dest: prepend_Some)
        with "2.IH"(4) c34 c92 s False ch show ?thesis
          by fastforce
      next
        case e117: True
        with c92 s "2.prems" obtain uni s2 where d: "decode_hex4 s1 = Some (uni, s2)"
          by (auto split: option.splits)
        then have l2: "length s1 = length s2 + 4"
          by (rule decode_hex4_length)
        show ?thesis
        proof (cases "high_surrogate uni \<and> take 2 s2 = [92, 117]")
          case False
          with c92 s e117 d "2.prems" have "prepend uni (scanstring s2) = Some (t, r)"
            by (auto split: if_splits)
          then obtain t' where "scanstring s2 = Some (t', r)"
            by (blast dest: prepend_Some)
          with "2.IH"(3) c34 c92 s e117 d False have "length r < length s2"
            by fastforce
          with l2 s show ?thesis by simp
        next
          case hs: True
          with c92 s e117 d "2.prems" obtain uni2 s3
            where d2: "decode_hex4 (drop 2 s2) = Some (uni2, s3)"
            by (auto split: option.splits)
          then have l3: "length s2 \<ge> length s3"
            by (auto dest!: decode_hex4_length)
          show ?thesis
          proof (cases "low_surrogate uni2")
            case True
            with c92 s e117 d hs d2 "2.prems" obtain t'
              where "scanstring s3 = Some (t', r)"
              by (auto dest: prepend_Some)
            with "2.IH"(1) c34 c92 s e117 d hs d2 True have "length r < length s3"
              by fastforce
            with l2 l3 s show ?thesis by simp
          next
            case False
            with c92 s e117 d hs d2 "2.prems" obtain t'
              where "scanstring s2 = Some (t', r)"
              by (auto dest: prepend_Some)
            with "2.IH"(2) c34 c92 s e117 d hs d2 False have "length r < length s2"
              by fastforce
            with l2 s show ?thesis by simp
          qed
        qed
      qed
    qed
  qed
qed

lemma length_skip_ws: "length (skip_ws s) \<le> length s"
  by (simp add: skip_ws_def length_dropWhile_le)

lemma skip_ws_Cons_length: "skip_ws s = c # r \<Longrightarrow> length r < length s"
  using length_skip_ws [of s] by simp

lemma parse_item_length:
  assumes "parse_item s = Inr (kv, r)"
  shows "length r < length s"
proof -
  from assms obtain s1 key s2 c2 s3 c3 s4 val where "s = 34 # s1"
    and "scanstring s1 = Some (key, s2)" and "skip_ws s2 = c2 # s3"
    and "skip_ws s3 = c3 # s4" and "scanstring s4 = Some (val, r)"
    by (auto simp: parse_item_def split: list.splits if_splits option.splits)
  then show ?thesis
    using scanstring_length [of s1 key s2] scanstring_length [of s4 val r]
      skip_ws_Cons_length [of s2 c2 s3] skip_ws_Cons_length [of s3 c3 s4]
    by simp
qed

text \<open>
  The members of an object, from the opening quote of a property name on: after each
  value a closing brace ends the object and a comma asks for the next member. A key
  that comes again replaces the earlier value.
\<close>

function parse_members ::
  "pystr \<Rightarrow> (pystr \<rightharpoonup> pystr) \<Rightarrow> exn + ((pystr \<rightharpoonup> pystr) \<times> pystr)" where
  "parse_members s acc =
     (case parse_item s of
        Inl e \<Rightarrow> Inl e
      | Inr ((key, val), s1) \<Rightarrow>
          (case skip_ws s1 of
             [] \<Rightarrow> Inl JSONDecodeError
           | c # s2 \<Rightarrow>
               if c = 125 then Inr (acc(key \<mapsto> val), s2)
               else if c = 44 then parse_members (skip_ws s2) (acc(key \<mapsto> val))
               else Inl JSONDecodeError))"
  by pat_completeness auto
termination
proof (relation "measure (\<lambda>(s, acc). length s)")
  show "wf (measure (\<lambda>(s, acc). length s))"
    by simp
next
  fix s :: pystr and acc :: "pystr \<rightharpoonup> pystr" and x x1 key val s1 c s2
  assume "parse_item s = Inr x" and "(x1, s1) = x" and "skip_ws s1 = c # s2"
  then have "length s1 < length s" and "length s2 < length s1"
    by (auto dest: parse_item_length skip_ws_Cons_length)
  then show "((skip_ws s2, acc(key \<mapsto> val)), (s, acc)) \<in> measure (\<lambda>(s, acc). length s)"
    using length_skip_ws [of s2] by simp
qed

declare parse_members.simps [simp del]

text \<open>
  \<^verbatim>\<open>json.loads\<close> on a \<^verbatim>\<open>str\<close>: a leading byte order mark is an error, the document
  is one object, and only whitespace may follow it.
\<close>

definition json_loads :: "pystr \<Rightarrow> exn + (pystr \<rightharpoonup> pystr)" where
  "json_loads s =
     (if take 1 s = [0xFEFF] then Inl JSONDecodeError
      else
        (case skip_ws s of
           [] \<Rightarrow> Inl JSONDecodeError
         | c # s1 \<Rightarrow>
             if c \<noteq> 123 then Inl NotStrDict
             else
               (case (case skip_ws s1 of
                        [] \<Rightarrow> Inl JSONDecodeError
                      | c1 # s2 \<Rightarrow>
                          if c1 = 125 then Inr (Map.empty, s2)
                          else parse_members (c1 # s2) Map.empty) of
                  Inl e \<Rightarrow> Inl e
                | Inr (d, rest) \<Rightarrow>
                    if skip_ws rest = [] then Inr d else Inl JSONDecodeError)))"

subsection \<open>Configuration and requests\<close>

text \<open>
  The module-level settings \<^verbatim>\<open>_DATA_DIR\<close>, \<^verbatim>\<open>_GROUPS\<close> and \<^verbatim>\<open>_DEFAULT_GROUP\<close>,
  read once when the module is loaded.
\<close>

record config =
  DATA_DIR :: path
  GROUPS :: "pystr \<rightharpoonup> pystr"
  DEFAULT_GROUP :: pystr

record SendRequest =
  message :: pystr
  group :: "pystr option"

text \<open>What a handler sees and may change: the settings and the filesystem.\<close>

record state =
  settings :: config
  disk :: filesystem

text \<open>The dictionary a handler returns: \<^verbatim>\<open>{"ok": True}\<close>, with \<^verbatim>\<open>"file"\<close> (here \<open>file_path\<close>) for /send.\<close>

record reply =
  ok :: bool
  file_path :: "pystr option"

subsection \<open>The configuration loader\<close>

text \<open>\<^verbatim>\<open>json.loads(p.read_text())\<close>, as the loader and the test suite read a file.\<close>

definition loads_file :: "filesystem \<Rightarrow> path \<Rightarrow> exn + (pystr \<rightharpoonup> pystr)" where
  "loads_file fs p = (case read_text fs p of Inl e \<Rightarrow> Inl e | Inr txt \<Rightarrow> json_loads txt)"


text \<open>
  The items of a dictionary whose strings are well formed and hold no surrogate pair, and
  the insertion of an item into a dictionary.
\<close>

definition valid_item :: "pystr \<times> pystr \<Rightarrow> bool" where
  "valid_item kv = (valid_str (fst kv) \<and> surrogate_pair_free (fst kv)
                     \<and> valid_str (snd kv) \<and> surrogate_pair_free (snd kv))"

definition store :: "(pystr \<rightharpoonup> pystr) \<Rightarrow> pystr \<times> pystr \<Rightarrow> (pystr \<rightharpoonup> pystr)" where
  "store d kv = d(fst kv \<mapsto> snd kv)"

subsection \<open>The handlers\<close>

definition health :: "state \<Rightarrow> (exn + reply) \<times> state" where
  "health st = (Inr \<lparr>ok = True, file_path = None\<rparr>, st)"

text \<open>
  \<^verbatim>\<open>req.group or _DEFAULT_GROUP\<close>: Python's \<^verbatim>\<open>or\<close> yields its left operand when
  that is truthy, and \<^verbatim>\<open>None\<close> and the empty string are both falsy.
\<close>

definition group_name :: "config \<Rightarrow> SendRequest \<Rightarrow> pystr" where
  "group_name cfg req =
     (case group req of
        None \<Rightarrow> DEFAULT_GROUP cfg
      | Some g \<Rightarrow> if g = [] then DEFAULT_GROUP cfg else g)"

definition not_found_detail :: "pystr \<Rightarrow> pystr" where
  "not_found_detail name = py ''Group '' @ [39] @ name @ [39] @ py '' not found in groups config''"

definition ipc_dir :: "config \<Rightarrow> path" where
  "ipc_dir cfg = truediv (truediv (truediv (DATA_DIR cfg) (py ''ipc'')) (py ''main'')) (py ''messages'')"

definition filename :: "int \<Rightarrow> pystr" where
  "filename now_ms = py ''webhook-'' @ str_int now_ms @ py ''.json''"

definition payload :: "pystr \<Rightarrow> pystr \<Rightarrow> (pystr \<times> pystr) list" where
  "payload jid text =
     [(py ''type'', py ''message''), (py ''chatJid'', jid), (py ''text'', text)]"

text \<open>
  \<open>send st now_ms req\<close>: the handler of POST /send. \<open>now_ms\<close> is the clock reading
  \<^verbatim>\<open>int(time.time() * 1000)\<close>. The result is the returned dictionary or the
  exception raised, with the state after the call.
\<close>

definition send :: "state \<Rightarrow> int \<Rightarrow> SendRequest \<Rightarrow> (exn + reply) \<times> state" where
  "send st now_ms req =
     (let cfg = settings st; name = group_name cfg req
      in case GROUPS cfg name of
           None \<Rightarrow> (Inl (HTTPException 404 (not_found_detail name)), st)
         | Some jid \<Rightarrow>
             if \<not> path_exists (disk st) (ipc_dir cfg)
             then (Inl (HTTPException 503 (py ''IPC messages directory does not exist'')), st)
             else
               (let ipc_file = truediv (ipc_dir cfg) (filename now_ms)
                in case write_text (disk st) ipc_file (json_dumps (payload jid (message req))) of
                     Inl e \<Rightarrow> (Inl e, st)
                   | Inr fs' \<Rightarrow>
                       (Inr \<lparr>ok = True, file_path = Some (str_path ipc_file)\<rparr>, st\<lparr>disk := fs'\<rparr>)))"

subsection \<open>The transport layer\<close>

text \<open>
  The request body as the framework hands it to the model class \<^verbatim>\<open>SendRequest\<close>:
  each of the two fields is absent or holds a JSON value, which is a string, null or
  something else. \<^verbatim>\<open>message: str\<close> is required and must be a string;
  \<^verbatim>\<open>group: str | None = None\<close> may be absent, null or a string. Numbers are not
  converted to strings.
\<close>

datatype raw = RStr pystr | RNull | ROther

record raw_body =
  raw_message :: "raw option"
  raw_group :: "raw option"

definition validate :: "raw_body \<Rightarrow> exn + SendRequest" where
  "validate body =
     (case raw_message body of
        Some (RStr m) \<Rightarrow>
          (case raw_group body of
             None \<Rightarrow> Inr \<lparr>message = m, group = None\<rparr>
           | Some RNull \<Rightarrow> Inr \<lparr>message = m, group = None\<rparr>
           | Some (RStr g) \<Rightarrow> Inr \<lparr>message = m, group = Some g\<rparr>
           | Some ROther \<Rightarrow> Inl RequestValidationError)
      | _ \<Rightarrow> Inl RequestValidationError)"

definition post_send :: "state \<Rightarrow> int \<Rightarrow> raw_body \<Rightarrow> (exn + reply) \<times> state" where
  "post_send st now_ms body =
     (case validate body of
        Inl e \<Rightarrow> (Inl e, st)
      | Inr req \<Rightarrow> send st now_ms req)"

text \<open>
  The status of the HTTP response: 200 for a returned dictionary, the status of an
  \<^verbatim>\<open>HTTPException\<close>, 422 for a validation error, 500 for any other exception.
\<close>

fun status_code :: "exn + reply \<Rightarrow> nat" where
  "status_code (Inr r) = 200"
| "status_code (Inl (HTTPException code detail)) = code"
| "status_code (Inl RequestValidationError) = 422"
| "status_code (Inl e) = 500"

subsection \<open>The fixtures of the test suite\<close>

text \<open>
  \<^verbatim>\<open>groups_file\<close>, \<^verbatim>\<open>data_dir\<close> and \<^verbatim>\<open>app\<close> of \<^verbatim>\<open>tests/test_main.py\<close>, with
  \<open>/tmp\<close> as the temporary directory, and the state of
  \<^verbatim>\<open>test_send_returns_503_when_ipc_dir_missing\<close>.
\<close>

definition tmp_path :: path where
  "tmp_path = Path (py ''/'') [py ''tmp'']"

definition groups_fixture :: "pystr \<rightharpoonup> pystr" where
  "groups_fixture =
     [py ''dev'' \<mapsto> py ''123456789@g.us'', py ''alerts'' \<mapsto> py ''987654321@g.us'']"

definition data_dir :: filesystem where
  "data_dir =
     [tmp_path \<mapsto> Dir,
      truediv tmp_path (py ''ipc'') \<mapsto> Dir,
      truediv (truediv tmp_path (py ''ipc'')) (py ''main'') \<mapsto> Dir,
      truediv (truediv (truediv tmp_path (py ''ipc'')) (py ''main'')) (py ''messages'') \<mapsto> Dir]"

definition app_settings :: config where
  "app_settings = \<lparr>DATA_DIR = tmp_path, GROUPS = groups_fixture, DEFAULT_GROUP = py ''dev''\<rparr>"

definition app :: state where
  "app = \<lparr>settings = app_settings, disk = data_dir\<rparr>"

definition app_no_ipc :: state where
  "app_no_ipc =
     \<lparr>settings = app_settings\<lparr>DATA_DIR := truediv tmp_path (py ''no-ipc-here'')\<rparr>,
      disk = [tmp_path \<mapsto> Dir, truediv tmp_path (py ''no-ipc-here'') \<mapsto> Dir]\<rparr>"

text \<open>
  Two more states: one whose mapping has the empty string as a key and whose default
  group is not a key, and one where a regular file sits at the path of the messages
  directory.
\<close>

definition app_empty_key :: state where
  "app_empty_key =
     \<lparr>settings = \<lparr>DATA_DIR = tmp_path, GROUPS = [[] \<mapsto> py ''555@g.us''],
                   DEFAULT_GROUP = py ''dev''\<rparr>,
      disk = data_dir\<rparr>"

definition app_ipc_is_file :: state where
  "app_ipc_is_file =
     \<lparr>settings = app_settings,
      disk = data_dir(ipc_dir app_settings \<mapsto> File [])\<rparr>"




definition surrogates_request :: SendRequest where
  "surrogates_request = \<lparr>message = [0xD83D, 0xDE00], group = Some (py ''dev'')\<rparr>"

definition webhook_17 :: path where
  "webhook_17 = truediv (ipc_dir app_settings) (filename 17)"

section \<open>Properties\<close>

subsection \<open>Helper facts\<close>

lemma sublist_not_found_detail: "sublist name (not_found_detail name)"
  unfolding not_found_detail_def sublist_def
  by (metis append.assoc)

lemma send_unknown:
  assumes "GROUPS (settings st) (group_name (settings st) req) = None"
  shows "send st now_ms req =
           (Inl (HTTPException 404 (not_found_detail (group_name (settings st) req))), st)"
  using assms by (simp add: send_def Let_def)

lemma groups_fixture_nonexistent: "groups_fixture (py ''nonexistent'') = None"
  by (simp add: groups_fixture_def py_def)

subsection \<open>Unknown group\<close>

text \<open>
  C4. When the effective group name is not a key of the loaded mapping, /send raises
  the 404 exception whose detail holds that name, whether the target directory exists
  or not, and the state (the filesystem with it) is the one before the call.
\<close>

theorem send_unknown_group_404:
  assumes "GROUPS (settings st) (group_name (settings st) req) = None"
  shows "\<exists>detail. send st now_ms req = (Inl (HTTPException 404 detail), st)
           \<and> sublist (group_name (settings st) req) detail
           \<and> status_code (fst (send st now_ms req)) = 404
           \<and> disk (snd (send st now_ms req)) = disk st"
  using send_unknown [OF assms] sublist_not_found_detail by simp

theorem send_unknown_group_404_witness:
  "GROUPS (settings app) (group_name (settings app) \<lparr>message = py ''hi'', group = Some (py ''nonexistent'')\<rparr>) = None
   \<and> (\<exists>detail. send app 17 \<lparr>message = py ''hi'', group = Some (py ''nonexistent'')\<rparr>
          = (Inl (HTTPException 404 detail), app)
        \<and> sublist (py ''nonexistent'') detail)
   \<and> (\<exists>detail. send app_no_ipc 17 \<lparr>message = py ''hi'', group = Some (py ''nonexistent'')\<rparr>
          = (Inl (HTTPException 404 detail), app_no_ipc)
        \<and> sublist (py ''nonexistent'') detail)"
proof -
  let ?req = "\<lparr>message = py ''hi'', group = Some (py ''nonexistent'')\<rparr>"
  have n: "group_name cfg ?req = py ''nonexistent''" for cfg
    by (simp add: group_name_def py_def)
  have g: "GROUPS (settings app) (group_name (settings app) ?req) = None"
    by (simp add: n app_def app_settings_def groups_fixture_nonexistent)
  have g': "GROUPS (settings app_no_ipc) (group_name (settings app_no_ipc) ?req) = None"
    by (simp add: n app_no_ipc_def app_settings_def groups_fixture_nonexistent)
  from send_unknown_group_404 [OF g, of 17] send_unknown_group_404 [OF g', of 17]
  show ?thesis
    using g by (auto simp: n)
qed

subsection \<open>The group used for the lookup\<close>

lemma send_same_name:
  assumes "group_name (settings st) r1 = group_name (settings st) r2"
    and "message r1 = message r2"
  shows "send st now_ms r1 = send st now_ms r2"
  unfolding send_def Let_def assms by (rule refl)

lemma send_status_404_iff:
  "status_code (fst (send st now_ms req)) = 404
     \<longleftrightarrow> GROUPS (settings st) (group_name (settings st) req) = None"
  by (simp add: send_def Let_def write_text_def split: option.splits)

text \<open>
  C3, amended. The name looked up is the request's group when that field is present and
  not the empty string, and the configured default when the field is absent or empty;
  /send answers 404 exactly when that name is not a key of the mapping.
\<close>

theorem group_name_effective:
  "(group req = Some g \<and> g \<noteq> [] \<longrightarrow> group_name cfg req = g)
   \<and> (group req = None \<or> group req = Some [] \<longrightarrow> group_name cfg req = DEFAULT_GROUP cfg)
   \<and> (status_code (fst (send st now_ms req)) = 404
        \<longleftrightarrow> GROUPS (settings st) (group_name (settings st) req) = None)"
  using send_status_404_iff [of st now_ms req]
  by (auto simp: group_name_def)

theorem group_name_effective_witness:
  "group \<lparr>message = py ''hi'', group = Some (py ''alerts'')\<rparr> = Some (py ''alerts'')
   \<and> py ''alerts'' \<noteq> []
   \<and> group_name app_settings \<lparr>message = py ''hi'', group = Some (py ''alerts'')\<rparr> = py ''alerts''
   \<and> group_name app_settings \<lparr>message = py ''hi'', group = None\<rparr> = py ''dev''"
proof -
  have ne: "py ''alerts'' \<noteq> []"
    by (simp add: py_def)
  have d: "DEFAULT_GROUP app_settings = py ''dev''"
    by (simp add: app_settings_def)
  from group_name_effective
         [of "\<lparr>message = py ''hi'', group = Some (py ''alerts'')\<rparr>" "py ''alerts''" app_settings app 17]
       group_name_effective
         [of "\<lparr>message = py ''hi'', group = None\<rparr>" "[]" app_settings app 17]
  show ?thesis
    using ne d by simp
qed

text \<open>
  Against C3 as stated: a group field that is present as the empty string is not the
  name looked up; with the default \<open>dev\<close> the name is \<open>dev\<close>.
\<close>

theorem group_name_present_counterexample:
  "group \<lparr>message = py ''hi'', group = Some []\<rparr> = Some []
   \<and> group_name app_settings \<lparr>message = py ''hi'', group = Some []\<rparr> \<noteq> []"
  by (simp add: group_name_def app_settings_def py_def)

text \<open>
  C10. A request whose group is the empty string is handled as the same request without
  a group: same result, same state. The empty string counts as absent: in both requests
  the name looked up is the configured default group name, and /send answers 404 exactly
  when the default is not a key of the mapping.
\<close>

theorem send_empty_group_as_omitted:
  "send st now_ms (req\<lparr>group := Some []\<rparr>) = send st now_ms (req\<lparr>group := None\<rparr>)
   \<and> group_name (settings st) (req\<lparr>group := Some []\<rparr>) = DEFAULT_GROUP (settings st)
   \<and> group_name (settings st) (req\<lparr>group := None\<rparr>) = DEFAULT_GROUP (settings st)
   \<and> (status_code (fst (send st now_ms (req\<lparr>group := Some []\<rparr>))) = 404
        \<longleftrightarrow> GROUPS (settings st) (DEFAULT_GROUP (settings st)) = None)"
proof -
  have e: "group_name (settings st) (req\<lparr>group := Some []\<rparr>) = DEFAULT_GROUP (settings st)"
    and n: "group_name (settings st) (req\<lparr>group := None\<rparr>) = DEFAULT_GROUP (settings st)"
    by (simp_all add: group_name_def)
  have "send st now_ms (req\<lparr>group := Some []\<rparr>) = send st now_ms (req\<lparr>group := None\<rparr>)"
    by (rule send_same_name) (simp_all add: e n)
  moreover have "status_code (fst (send st now_ms (req\<lparr>group := Some []\<rparr>))) = 404
                   \<longleftrightarrow> GROUPS (settings st) (DEFAULT_GROUP (settings st)) = None"
    using send_status_404_iff [of st now_ms "req\<lparr>group := Some []\<rparr>"] by (simp add: e)
  ultimately show ?thesis
    using e n by simp
qed

text \<open>
  C6. Leaving the group out gives the same result and the same state, the written file
  included, as naming the configured default group.
\<close>

theorem send_omitted_group_is_default:
  "send st now_ms \<lparr>message = m, group = None\<rparr>
     = send st now_ms \<lparr>message = m, group = Some (DEFAULT_GROUP (settings st))\<rparr>"
  by (rule send_same_name) (simp_all add: group_name_def)

subsection \<open>Missing target directory\<close>

text \<open>
  C2, amended. When the effective group name is a key of the mapping and nothing exists
  at the path of the messages directory, /send raises the 503 exception and the state is
  the one before the call.
\<close>

theorem send_missing_dir_503:
  assumes "GROUPS (settings st) (group_name (settings st) req) = Some jid"
    and "\<not> path_exists (disk st) (ipc_dir (settings st))"
  shows "send st now_ms req
           = (Inl (HTTPException 503 (py ''IPC messages directory does not exist'')), st)
         \<and> status_code (fst (send st now_ms req)) = 503"
  using assms by (simp add: send_def Let_def)

lemma ipc_dir_no_ipc: "disk app_no_ipc (ipc_dir (settings app_no_ipc)) = None"
  by (simp add: app_no_ipc_def app_settings_def ipc_dir_def truediv_def tmp_path_def py_def)

lemma groups_no_ipc: "GROUPS (settings app_no_ipc) = groups_fixture"
  by (simp add: app_no_ipc_def app_settings_def)

lemma groups_fixture_dev: "groups_fixture (py ''dev'') = Some (py ''123456789@g.us'')"
  by (simp add: groups_fixture_def py_def)

theorem send_missing_dir_503_witness:
  "GROUPS (settings app_no_ipc)
       (group_name (settings app_no_ipc) \<lparr>message = py ''test'', group = Some (py ''dev'')\<rparr>)
     = Some (py ''123456789@g.us'')
   \<and> \<not> path_exists (disk app_no_ipc) (ipc_dir (settings app_no_ipc))
   \<and> status_code (fst (send app_no_ipc 17 \<lparr>message = py ''test'', group = Some (py ''dev'')\<rparr>)) = 503
   \<and> snd (send app_no_ipc 17 \<lparr>message = py ''test'', group = Some (py ''dev'')\<rparr>) = app_no_ipc"
proof -
  let ?req = "\<lparr>message = py ''test'', group = Some (py ''dev'')\<rparr>"
  have n: "group_name (settings app_no_ipc) ?req = py ''dev''"
    by (simp add: group_name_def py_def)
  have g: "GROUPS (settings app_no_ipc) (group_name (settings app_no_ipc) ?req)
             = Some (py ''123456789@g.us'')"
    by (simp add: n groups_no_ipc groups_fixture_dev)
  have e: "\<not> path_exists (disk app_no_ipc) (ipc_dir (settings app_no_ipc))"
    by (simp add: path_exists_def ipc_dir_no_ipc)
  from send_missing_dir_503 [OF g e, of 17] show ?thesis
    using g e by simp
qed

text \<open>
  Against C2 as stated: with the directory missing and a group that is not a key of the
  mapping, /send answers 404, not 503.
\<close>

theorem send_missing_dir_counterexample:
  "\<not> path_exists (disk app_no_ipc) (ipc_dir (settings app_no_ipc))
   \<and> status_code (fst (send app_no_ipc 17 \<lparr>message = py ''hi'', group = Some (py ''nonexistent'')\<rparr>)) = 404"
proof -
  let ?req = "\<lparr>message = py ''hi'', group = Some (py ''nonexistent'')\<rparr>"
  have n: "group_name (settings app_no_ipc) ?req = py ''nonexistent''"
    by (simp add: group_name_def py_def)
  have "GROUPS (settings app_no_ipc) (group_name (settings app_no_ipc) ?req) = None"
    by (simp add: n groups_no_ipc groups_fixture_nonexistent)
  then show ?thesis
    by (simp add: send_status_404_iff path_exists_def ipc_dir_no_ipc)
qed

subsection \<open>The settings are read-only\<close>

text \<open>
  C9. No handler changes the loaded mapping, the default group or the base directory:
  /health, /send and the transport layer's call of /send return a state with the
  settings they were given, whatever the request and whatever the outcome.
\<close>

theorem handlers_keep_settings:
  "settings (snd (health st)) = settings st
   \<and> settings (snd (send st now_ms req)) = settings st
   \<and> settings (snd (post_send st now_ms body)) = settings st"
  by (simp add: health_def post_send_def send_def Let_def split: sum.splits option.splits)

subsection \<open>Malformed requests\<close>

text \<open>
  C7. A body whose message field is absent, or holds anything but a string, is rejected
  by the validation with status 422, and the state is the one before the call: no file
  is written.
\<close>

theorem post_send_missing_message_422:
  assumes "\<forall>m. raw_message body \<noteq> Some (RStr m)"
  shows "post_send st now_ms body = (Inl RequestValidationError, st)
         \<and> status_code (fst (post_send st now_ms body)) = 422"
proof -
  have "validate body = Inl RequestValidationError"
    using assms by (auto simp: validate_def split: option.splits raw.splits)
  then show ?thesis
    by (simp add: post_send_def)
qed

theorem post_send_missing_message_422_witness:
  "(\<forall>m. raw_message \<lparr>raw_message = None, raw_group = Some (RStr (py ''dev''))\<rparr> \<noteq> Some (RStr m))
   \<and> post_send app 17 \<lparr>raw_message = None, raw_group = Some (RStr (py ''dev''))\<rparr>
       = (Inl RequestValidationError, app)"
proof -
  have h: "\<forall>m. raw_message \<lparr>raw_message = None, raw_group = Some (RStr (py ''dev''))\<rparr> \<noteq> Some (RStr m)"
    by simp
  from post_send_missing_message_422 [OF h, of app 17] show ?thesis
    using h by simp
qed

subsection \<open>Decoding what the encoder wrote\<close>

text \<open>Four hexadecimal digits, read back.\<close>

lemma hexval_hexdigit: "d < 16 \<Longrightarrow> hexval (hexdigit d) = Some d"
  by (simp add: hexval_def hexdigit_def)

lemma hex4_value:
  fixes n :: nat
  assumes "n < 65536"
  shows "((n div 4096 mod 16 * 16 + n div 256 mod 16) * 16 + n div 16 mod 16) * 16 + n mod 16 = n"
proof -
  have a: "n = 16 * (n div 16) + n mod 16"
    by simp
  have b: "n div 16 = 16 * (n div 16 div 16) + n div 16 mod 16"
    by simp
  have c: "n div 16 div 16 = 16 * (n div 16 div 16 div 16) + n div 16 div 16 mod 16"
    by simp
  have d: "n div 16 div 16 div 16 < 16"
    using assms by simp
  have e: "n div 256 = n div 16 div 16" "n div 4096 = n div 16 div 16 div 16"
    by (simp_all add: div_mult2_eq)
  show ?thesis
    using a b c d unfolding e by simp
qed

lemma decode_hex4_digits:
  assumes "a < 16" "b < 16" "c < 16" "d < 16"
  shows "decode_hex4 (hexdigit a # hexdigit b # hexdigit c # hexdigit d # r)
           = Some (((a * 16 + b) * 16 + c) * 16 + d, r)"
  using assms by (simp add: hexval_hexdigit)

lemma decode_hex4_hex4:
  assumes "n < 65536"
  shows "decode_hex4 (hex4 n @ r) = Some (n, r)"
proof -
  have "decode_hex4 (hex4 n @ r)
          = Some (((n div 4096 mod 16 * 16 + n div 256 mod 16) * 16 + n div 16 mod 16) * 16
                    + n mod 16, r)"
    unfolding hex4_def append_Cons append_Nil
    by (rule decode_hex4_digits) simp_all
  then show ?thesis
    by (simp only: hex4_value [OF assms])
qed

lemma scanstring_simple_escape:
  assumes "backslash e = Some ch" "e \<noteq> 117"
  shows "scanstring (92 # e # rest) = prepend ch (scanstring rest)"
  using assms by simp

lemma scanstring_plain:
  assumes "c \<noteq> 34" "c \<noteq> 92" "32 \<le> c"
  shows "scanstring (c # rest) = prepend c (scanstring rest)"
  using assms by simp

lemma scanstring_u_single:
  assumes "decode_hex4 s1 = Some (uni, s2)"
    and "high_surrogate uni \<Longrightarrow> take 2 s2 = [92, 117] \<Longrightarrow>
           \<exists>u r. decode_hex4 (drop 2 s2) = Some (u, r) \<and> \<not> low_surrogate u"
  shows "scanstring (92 # 117 # s1) = prepend uni (scanstring s2)"
proof (cases "high_surrogate uni \<and> take 2 s2 = [92, 117]")
  case True
  with assms(2) obtain u r where "decode_hex4 (drop 2 s2) = Some (u, r)" "\<not> low_surrogate u"
    by blast
  with True assms(1) show ?thesis
    by simp
next
  case False
  with assms(1) show ?thesis
    by auto
qed

lemma scanstring_u_pair:
  assumes "decode_hex4 s1 = Some (uni, 92 # 117 # s2)" "high_surrogate uni"
    and "decode_hex4 s2 = Some (uni2, s3)" "low_surrogate uni2"
  shows "scanstring (92 # 117 # s1)
           = prepend (0x10000 + (uni - 0xD800) * 1024 + (uni2 - 0xDC00)) (scanstring s3)"
  using assms by simp

lemma surrogate_halves:
  fixes n :: nat
  assumes "n < 0x100000"
  shows "high_surrogate (0xD800 + n div 1024 mod 1024)"
    and "low_surrogate (0xDC00 + n mod 1024)"
    and "0xD800 + n div 1024 mod 1024 < 65536"
    and "0xDC00 + n mod 1024 < 65536"
    and "(0xD800 + n div 1024 mod 1024 - 0xD800) * 1024 + (0xDC00 + n mod 1024 - 0xDC00) = n"
proof -
  have d: "n div 1024 < 1024"
    using assms by simp
  have m: "n mod 1024 < 1024"
    by simp
  show "high_surrogate (0xD800 + n div 1024 mod 1024)"
    using d by (simp add: high_surrogate_def)
  show "low_surrogate (0xDC00 + n mod 1024)"
    using m by (simp add: low_surrogate_def)
  show "0xD800 + n div 1024 mod 1024 < 65536"
    using d by simp
  show "0xDC00 + n mod 1024 < 65536"
    using m by simp
  show "(0xD800 + n div 1024 mod 1024 - 0xD800) * 1024 + (0xDC00 + n mod 1024 - 0xDC00) = n"
    using d by simp
qed

lemma scanstring_escape_char:
  assumes v: "c < 0x110000"
    and nxt: "high_surrogate c \<Longrightarrow> take 2 rest = [92, 117] \<Longrightarrow>
           \<exists>u r. decode_hex4 (drop 2 rest) = Some (u, r) \<and> \<not> low_surrogate u"
  shows "scanstring (escape_char c @ rest) = prepend c (scanstring rest)"
proof -
  consider (simple) "c = 34 \<or> c = 92 \<or> c = 8 \<or> c = 12 \<or> c = 10 \<or> c = 13 \<or> c = 9"
    | (plain) "c \<noteq> 34" "c \<noteq> 92" "32 \<le> c" "c \<le> 126"
    | (bmp) "c \<noteq> 8" "c \<noteq> 12" "c \<noteq> 10" "c \<noteq> 13" "c \<noteq> 9" "c < 32 \<or> 126 < c" "c < 0x10000"
    | (astral) "0x10000 \<le> c"
    by linarith
  then show ?thesis
  proof cases
    case simple
    then show ?thesis
      by (auto simp: escape_char_def backslash_def)
  next
    case plain
    then have "escape_char c = [c]"
      by (simp add: escape_char_def)
    with plain show ?thesis
      by (simp add: scanstring_plain)
  next
    case bmp
    then have e: "escape_char c = 92 # 117 # hex4 c"
      by (auto simp: escape_char_def)
    have d: "decode_hex4 (hex4 c @ rest) = Some (c, rest)"
      using bmp by (simp add: decode_hex4_hex4)
    show ?thesis
      unfolding e append_Cons
      by (rule scanstring_u_single [OF d]) (rule nxt)
  next
    case astral
    define n where "n = c - 0x10000"
    have n: "n < 0x100000" and c: "c = 0x10000 + n"
      using v astral by (simp_all add: n_def)
    let ?hi = "0xD800 + n div 1024 mod 1024" and ?lo = "0xDC00 + n mod 1024"
    have e: "escape_char c = 92 # 117 # hex4 ?hi @ 92 # 117 # hex4 ?lo"
      using astral by (simp add: escape_char_def n_def Let_def)
    have d1: "decode_hex4 (hex4 ?hi @ 92 # 117 # hex4 ?lo @ rest)
                = Some (?hi, 92 # 117 # hex4 ?lo @ rest)"
      by (rule decode_hex4_hex4) (rule surrogate_halves(3) [OF n])
    have d2: "decode_hex4 (hex4 ?lo @ rest) = Some (?lo, rest)"
      by (rule decode_hex4_hex4) (rule surrogate_halves(4) [OF n])
    have "scanstring (92 # 117 # hex4 ?hi @ 92 # 117 # hex4 ?lo @ rest)
            = prepend (0x10000 + (?hi - 0xD800) * 1024 + (?lo - 0xDC00)) (scanstring rest)"
      by (rule scanstring_u_pair [OF d1 surrogate_halves(1) [OF n] d2 surrogate_halves(2) [OF n]])
    also have "0x10000 + (?hi - 0xD800) * 1024 + (?lo - 0xDC00) = c"
      using surrogate_halves(5) [OF n] c by simp
    finally show ?thesis
      by (simp add: e)
  qed
qed

lemma escape_char_next:
  assumes v: "d < 0x110000"
    and t: "take 2 (escape_char d @ rest) = [92, 117]"
  shows "\<exists>u r. decode_hex4 (drop 2 (escape_char d @ rest)) = Some (u, r)
                \<and> (low_surrogate u \<longrightarrow> u = d)"
proof -
  consider (simple) "d = 34 \<or> d = 92 \<or> d = 8 \<or> d = 12 \<or> d = 10 \<or> d = 13 \<or> d = 9"
    | (plain) "d \<noteq> 34" "d \<noteq> 92" "32 \<le> d" "d \<le> 126"
    | (bmp) "d \<noteq> 8" "d \<noteq> 12" "d \<noteq> 10" "d \<noteq> 13" "d \<noteq> 9" "d < 32 \<or> 126 < d" "d < 0x10000"
    | (astral) "0x10000 \<le> d"
    by linarith
  then show ?thesis
  proof cases
    case simple
    then obtain x where "escape_char d = [92, x]" and "x \<noteq> 117"
      by (elim disjE) (simp_all add: escape_char_def)
    with t show ?thesis
      by simp
  next
    case plain
    then have "escape_char d = [d]"
      by (simp add: escape_char_def)
    with t plain show ?thesis
      by simp
  next
    case bmp
    then have e: "escape_char d = 92 # 117 # hex4 d"
      by (auto simp: escape_char_def)
    have "decode_hex4 (hex4 d @ rest) = Some (d, rest)"
      using bmp by (simp add: decode_hex4_hex4)
    then show ?thesis
      by (simp add: e)
  next
    case astral
    define n where "n = d - 0x10000"
    have n: "n < 0x100000"
      using v astral by (simp add: n_def)
    let ?hi = "0xD800 + n div 1024 mod 1024" and ?lo = "0xDC00 + n mod 1024"
    have e: "escape_char d = 92 # 117 # hex4 ?hi @ 92 # 117 # hex4 ?lo"
      using astral by (simp add: escape_char_def n_def Let_def)
    have d1: "decode_hex4 (hex4 ?hi @ 92 # 117 # hex4 ?lo @ rest)
                = Some (?hi, 92 # 117 # hex4 ?lo @ rest)"
      by (rule decode_hex4_hex4) (rule surrogate_halves(3) [OF n])
    have "\<not> low_surrogate ?hi"
      using surrogate_halves(1) [OF n] by (simp add: high_surrogate_def low_surrogate_def)
    with d1 show ?thesis
      by (simp add: e)
  qed
qed

lemma scanstring_escaped:
  assumes "valid_str s" "surrogate_pair_free s"
  shows "scanstring (concat (map escape_char s) @ 34 # rest) = Some (s, rest)"
  using assms
proof (induction s rule: surrogate_pair_free.induct)
  case 1
  show ?case by simp
next
  case (2 c)
  then have v: "c < 0x110000"
    by (simp add: valid_str_def)
  have "scanstring (escape_char c @ 34 # rest) = prepend c (scanstring (34 # rest))"
    by (rule scanstring_escape_char [OF v]) simp
  then show ?case
    by (simp add: prepend_def)
next
  case (3 c d s)
  from "3.prems" have v: "c < 0x110000" and vd: "d < 0x110000" and vs: "valid_str (d # s)"
    and np: "\<not> (high_surrogate c \<and> low_surrogate d)" and pf: "surrogate_pair_free (d # s)"
    by (simp_all add: valid_str_def)
  let ?rest = "concat (map escape_char (d # s)) @ 34 # rest"
  have ih: "scanstring ?rest = Some (d # s, rest)"
    by (rule "3.IH" [OF vs pf])
  have "scanstring (escape_char c @ ?rest) = prepend c (scanstring ?rest)"
  proof (rule scanstring_escape_char [OF v])
    assume h: "high_surrogate c" and t: "take 2 ?rest = [92, 117]"
    have r: "?rest = escape_char d @ (concat (map escape_char s) @ 34 # rest)"
      by simp
    from escape_char_next [OF vd t [unfolded r]] obtain u r'
      where "decode_hex4 (drop 2 ?rest) = Some (u, r')" and "low_surrogate u \<longrightarrow> u = d"
      unfolding r by blast
    with h np show "\<exists>u r. decode_hex4 (drop 2 ?rest) = Some (u, r) \<and> \<not> low_surrogate u"
      by blast
  qed
  with ih show ?case
    by (simp add: prepend_def)
qed

lemma scanstring_encoded:
  assumes "valid_str s" "surrogate_pair_free s"
  shows "encode_basestring_ascii s @ rest = 34 # tl (encode_basestring_ascii s) @ rest"
    and "scanstring (tl (encode_basestring_ascii s) @ rest) = Some (s, rest)"
  using scanstring_escaped [OF assms] by (simp_all add: encode_basestring_ascii_def)

text \<open>Items and whole objects.\<close>

lemma skip_ws_simps:
  "skip_ws (32 # s) = skip_ws s" "skip_ws (58 # s) = 58 # s" "skip_ws (34 # s) = 34 # s"
  "skip_ws (44 # s) = 44 # s" "skip_ws (125 # s) = 125 # s" "skip_ws (123 # s) = 123 # s"
  "skip_ws [] = []"
  by (simp_all add: skip_ws_def)

lemma parse_item_dumps_item:
  assumes "valid_str k" "surrogate_pair_free k" "valid_str v" "surrogate_pair_free v"
  shows "parse_item (dumps_item (k, v) @ rest) = Inr ((k, v), rest)"
proof -
  let ?k = "tl (encode_basestring_ascii k)" and ?v = "tl (encode_basestring_ascii v)"
  have e: "dumps_item (k, v) @ rest = 34 # ?k @ 58 # 32 # 34 # ?v @ rest"
    by (simp add: dumps_item_def encode_basestring_ascii_def py_def)
  have k: "scanstring (?k @ 58 # 32 # 34 # ?v @ rest) = Some (k, 58 # 32 # 34 # ?v @ rest)"
    by (rule scanstring_encoded(2) [OF assms(1,2)])
  have v: "scanstring (?v @ rest) = Some (v, rest)"
    by (rule scanstring_encoded(2) [OF assms(3,4)])
  show ?thesis
    unfolding e by (simp add: parse_item_def k v skip_ws_simps)
qed

lemma join_dumps_quote:
  assumes "items \<noteq> []"
  shows "\<exists>t. join sep (map dumps_item items) @ rest = 34 # t"
proof (cases items)
  case Nil
  with assms show ?thesis by simp
next
  case (Cons kv items')
  then show ?thesis
    by (cases items') (simp_all add: dumps_item_def encode_basestring_ascii_def)
qed

lemma parse_members_dumps:
  assumes "items \<noteq> []" "\<forall>kv \<in> set items. valid_item kv"
  shows "parse_members (join (py '', '') (map dumps_item items) @ 125 # rest) acc
           = Inr (foldl store acc items, rest)"
  using assms
proof (induction items arbitrary: acc)
  case Nil
  then show ?case by simp
next
  case (Cons kv items)
  obtain k v where kv: "kv = (k, v)"
    by (cases kv)
  with Cons.prems have val: "valid_str k" "surrogate_pair_free k" "valid_str v" "surrogate_pair_free v"
    by (simp_all add: valid_item_def)
  show ?case
  proof (cases items)
    case Nil
    have "parse_item (dumps_item (k, v) @ 125 # rest) = Inr ((k, v), 125 # rest)"
      by (rule parse_item_dumps_item [OF val])
    then show ?thesis
      by (subst parse_members.simps) (simp add: Nil kv skip_ws_simps store_def)
  next
    case (Cons kv' items')
    let ?tail = "join (py '', '') (map dumps_item items) @ 125 # rest"
    have ne: "items \<noteq> []"
      by (simp add: Cons)
    have j: "join (py '', '') (map dumps_item (kv # items)) @ 125 # rest
               = dumps_item (k, v) @ 44 # 32 # ?tail"
      by (simp add: Cons kv py_def)
    have p: "parse_item (dumps_item (k, v) @ 44 # 32 # ?tail) = Inr ((k, v), 44 # 32 # ?tail)"
      by (rule parse_item_dumps_item [OF val])
    have s: "skip_ws ?tail = ?tail"
      using join_dumps_quote [OF ne, of "py '', ''" "125 # rest"]
      by (auto simp: skip_ws_simps)
    have ih: "parse_members ?tail (acc(k \<mapsto> v)) = Inr (foldl store (acc(k \<mapsto> v)) items, rest)"
      using Cons.IH [OF ne] Cons.prems(2) by simp
    show ?thesis
      unfolding j
      by (subst parse_members.simps) (simp add: p skip_ws_simps s ih kv store_def)
  qed
qed

lemma json_loads_dumps:
  assumes "\<forall>kv \<in> set items. valid_item kv"
  shows "json_loads (json_dumps items) = Inr (foldl store Map.empty items)"
proof (cases items)
  case Nil
  then show ?thesis
    by (simp add: json_loads_def json_dumps_def py_def skip_ws_simps)
next
  case (Cons kv items')
  let ?body = "join (py '', '') (map dumps_item items) @ [125]"
  have ne: "items \<noteq> []"
    by (simp add: Cons)
  have d: "json_dumps items = 123 # ?body"
    by (simp add: json_dumps_def py_def)
  obtain t where b: "?body = 34 # t"
    using join_dumps_quote [OF ne, of "py '', ''" "[125]"] by auto
  have p: "parse_members (34 # t) Map.empty = Inr (foldl store Map.empty items, [])"
    using parse_members_dumps [OF ne assms, of "[]" Map.empty] by (simp only: b)
  show ?thesis
    unfolding d json_loads_def b using p
    by (simp add: skip_ws_simps)
qed




lemma valid_literals:
  "valid_str (py ''type'')" "surrogate_pair_free (py ''type'')"
  "valid_str (py ''message'')" "surrogate_pair_free (py ''message'')"
  "valid_str (py ''chatJid'')" "surrogate_pair_free (py ''chatJid'')"
  "valid_str (py ''text'')" "surrogate_pair_free (py ''text'')"
  by (simp_all add: valid_str_def py_def high_surrogate_def)

lemma json_loads_payload:
  assumes "valid_str jid" "surrogate_pair_free jid" "valid_str text" "surrogate_pair_free text"
  shows "json_loads (json_dumps (payload jid text))
           = Inr [py ''type'' \<mapsto> py ''message'', py ''chatJid'' \<mapsto> jid, py ''text'' \<mapsto> text]"
proof -
  have "\<forall>kv \<in> set (payload jid text). valid_item kv"
    using assms by (simp add: payload_def valid_item_def valid_literals)
  then have "json_loads (json_dumps (payload jid text))
               = Inr (foldl store Map.empty (payload jid text))"
    by (rule json_loads_dumps)
  then show ?thesis
    by (simp add: payload_def store_def)
qed

subsection \<open>A successful /send\<close>

lemma str_nat_17: "str_nat 17 = [49, 55]"
  by (subst str_nat.simps, subst str_nat.simps) simp

lemma parent_truediv: "parent (truediv p name) = p"
  by (simp add: parent_def truediv_def)

lemma send_success:
  assumes "GROUPS (settings st) (group_name (settings st) req) = Some jid"
    and "disk st (ipc_dir (settings st)) = Some Dir"
    and "disk st (truediv (ipc_dir (settings st)) (filename now_ms)) \<noteq> Some Dir"
  shows "send st now_ms req =
           (Inr \<lparr>ok = True,
                 file_path = Some (str_path (truediv (ipc_dir (settings st)) (filename now_ms)))\<rparr>,
            st\<lparr>disk := (disk st)(truediv (ipc_dir (settings st)) (filename now_ms) \<mapsto>
                    File (json_dumps (payload jid (message req))))\<rparr>)"
  using assms by (simp add: send_def Let_def path_exists_def write_text_def parent_truediv)

lemma send_Inr:
  assumes "fst (send st now_ms req) = Inr r"
    and "GROUPS (settings st) (group_name (settings st) req) = Some jid"
  shows "send st now_ms req =
           (Inr \<lparr>ok = True,
                 file_path = Some (str_path (truediv (ipc_dir (settings st)) (filename now_ms)))\<rparr>,
            st\<lparr>disk := (disk st)(truediv (ipc_dir (settings st)) (filename now_ms) \<mapsto>
                    File (json_dumps (payload jid (message req))))\<rparr>)"
  using assms
  by (auto simp: send_def Let_def write_text_def split: option.splits if_splits)

lemma app_facts:
  "settings app = app_settings"
  "GROUPS app_settings (py ''dev'') = Some (py ''123456789@g.us'')"
  "disk app (ipc_dir app_settings) = Some Dir"
  "disk app webhook_17 = None"
  by (simp_all add: app_def app_settings_def groups_fixture_def data_dir_def ipc_dir_def
        webhook_17_def truediv_def tmp_path_def py_def)

lemma str_path_webhook_17:
  "str_path webhook_17 = py ''/tmp/ipc/main/messages/webhook-17.json''"
  by (simp add: webhook_17_def str_path_def ipc_dir_def truediv_def app_settings_def tmp_path_def
       filename_def str_int_def str_nat_17 py_def)

lemma loads_surrogates:
  "json_loads (json_dumps (payload (py ''123456789@g.us'') [0xD83D, 0xDE00]))
     = Inr [py ''type'' \<mapsto> py ''message'', py ''chatJid'' \<mapsto> py ''123456789@g.us'',
            py ''text'' \<mapsto> [0x1F600]]"
  by (simp add: json_loads_def json_dumps_def payload_def dumps_item_def encode_basestring_ascii_def
       escape_char_def hex4_def hexdigit_def py_def skip_ws_def parse_members.simps parse_item_def
       prepend_def backslash_def hexval_def high_surrogate_def low_surrogate_def)

text \<open>
  C1, amended. For every group name that is a key of the mapping and not the empty
  string, when the messages directory exists as a directory and the name of the new
  file is not taken by a directory, /send with that group returns status 200, the
  success flag and the full path of the file; the file lies in
  \<open><base>/ipc/main/messages\<close>, it is the only path of the filesystem that changes, and
  its text is the serialised payload, whose \<open>chatJid\<close> is the identifier the mapping
  gives for the group.
\<close>

theorem send_known_group_writes_file:
  assumes "g \<noteq> []"
    and "GROUPS (settings st) g = Some jid"
    and "disk st (ipc_dir (settings st)) = Some Dir"
    and "disk st (truediv (ipc_dir (settings st)) (filename now_ms)) \<noteq> Some Dir"
  shows "fst (send st now_ms \<lparr>message = m, group = Some g\<rparr>)
           = Inr \<lparr>ok = True,
                  file_path = Some (str_path (truediv (ipc_dir (settings st)) (filename now_ms)))\<rparr>
         \<and> status_code (fst (send st now_ms \<lparr>message = m, group = Some g\<rparr>)) = 200
         \<and> parent (truediv (ipc_dir (settings st)) (filename now_ms)) = ipc_dir (settings st)
         \<and> disk (snd (send st now_ms \<lparr>message = m, group = Some g\<rparr>))
             = (disk st)(truediv (ipc_dir (settings st)) (filename now_ms) \<mapsto>
                  File (json_dumps (payload jid m)))
         \<and> map_of (payload jid m) (py ''chatJid'') = Some jid"
proof -
  let ?req = "\<lparr>message = m, group = Some g\<rparr>"
  have "group_name (settings st) ?req = g"
    using assms(1) by (simp add: group_name_def)
  with assms(2) have "GROUPS (settings st) (group_name (settings st) ?req) = Some jid"
    by simp
  from send_success [OF this assms(3,4)] show ?thesis
    by (simp add: parent_truediv payload_def py_def)
qed

theorem send_known_group_writes_file_witness:
  "py ''dev'' \<noteq> []
   \<and> GROUPS (settings app) (py ''dev'') = Some (py ''123456789@g.us'')
   \<and> disk app (ipc_dir (settings app)) = Some Dir
   \<and> disk app (truediv (ipc_dir (settings app)) (filename 17)) \<noteq> Some Dir
   \<and> fst (send app 17 \<lparr>message = py ''hello world'', group = Some (py ''dev'')\<rparr>)
       = Inr \<lparr>ok = True, file_path = Some (py ''/tmp/ipc/main/messages/webhook-17.json'')\<rparr>
   \<and> disk (snd (send app 17 \<lparr>message = py ''hello world'', group = Some (py ''dev'')\<rparr>))
       = (disk app)(webhook_17 \<mapsto>
            File (json_dumps (payload (py ''123456789@g.us'') (py ''hello world''))))"
proof -
  have h1: "py ''dev'' \<noteq> []"
    by (simp add: py_def)
  have h2: "GROUPS (settings app) (py ''dev'') = Some (py ''123456789@g.us'')"
    by (simp add: app_facts)
  have h3: "disk app (ipc_dir (settings app)) = Some Dir"
    by (simp add: app_facts)
  have h4: "disk app (truediv (ipc_dir (settings app)) (filename 17)) \<noteq> Some Dir"
    using app_facts(4) by (simp add: app_facts(1) webhook_17_def)
  from send_known_group_writes_file [OF h1 h2 h3 h4, of "py ''hello world''"]
  show ?thesis
    using h1 h2 h3 h4 str_path_webhook_17 by (simp add: app_facts(1) webhook_17_def)
qed

text \<open>
  Against C1 as stated, each time with a group that is a key of the mapping: with the
  messages directory missing the answer is 503; with the empty string as the group the
  default is looked up instead, here without success; with a regular file in the place
  of the directory the write fails. No file is written in any of the three.
\<close>

theorem send_known_group_counterexample:
  "GROUPS (settings app_no_ipc) (py ''dev'') = Some (py ''123456789@g.us'')
   \<and> send app_no_ipc 17 \<lparr>message = py ''test'', group = Some (py ''dev'')\<rparr>
       = (Inl (HTTPException 503 (py ''IPC messages directory does not exist'')), app_no_ipc)
   \<and> GROUPS (settings app_empty_key) [] = Some (py ''555@g.us'')
   \<and> send app_empty_key 17 \<lparr>message = py ''test'', group = Some []\<rparr>
       = (Inl (HTTPException 404 (not_found_detail (py ''dev''))), app_empty_key)
   \<and> GROUPS (settings app_ipc_is_file) (py ''dev'') = Some (py ''123456789@g.us'')
   \<and> send app_ipc_is_file 17 \<lparr>message = py ''test'', group = Some (py ''dev'')\<rparr>
       = (Inl OSError, app_ipc_is_file)"
proof -
  have a: "GROUPS (settings app_no_ipc) (py ''dev'') = Some (py ''123456789@g.us'')"
    by (simp add: groups_no_ipc groups_fixture_dev)
  have b: "send app_no_ipc 17 \<lparr>message = py ''test'', group = Some (py ''dev'')\<rparr>
             = (Inl (HTTPException 503 (py ''IPC messages directory does not exist'')), app_no_ipc)"
    using a ipc_dir_no_ipc by (simp add: send_def Let_def group_name_def path_exists_def py_def)
  have c: "GROUPS (settings app_empty_key) [] = Some (py ''555@g.us'')"
    by (simp add: app_empty_key_def)
  have d: "send app_empty_key 17 \<lparr>message = py ''test'', group = Some []\<rparr>
             = (Inl (HTTPException 404 (not_found_detail (py ''dev''))), app_empty_key)"
    by (simp add: send_def Let_def group_name_def app_empty_key_def py_def)
  have e: "GROUPS (settings app_ipc_is_file) (py ''dev'') = Some (py ''123456789@g.us'')"
    by (simp add: app_ipc_is_file_def app_facts)
  have f: "send app_ipc_is_file 17 \<lparr>message = py ''test'', group = Some (py ''dev'')\<rparr>
             = (Inl OSError, app_ipc_is_file)"
    using e by (simp add: send_def Let_def group_name_def path_exists_def write_text_def
                  parent_truediv app_ipc_is_file_def py_def)
  from a b c d e f show ?thesis
    by blast
qed

text \<open>
  On the fixture a request with the empty string as its group is answered from the
  default group \<open>dev\<close>: status 200, and the file holds the identifier of \<open>dev\<close>.
\<close>

theorem send_empty_group_as_omitted_witness:
  "group_name (settings app) \<lparr>message = py ''hi'', group = Some []\<rparr> = py ''dev''
   \<and> status_code (fst (send app 17 \<lparr>message = py ''hi'', group = Some []\<rparr>)) = 200
   \<and> send app 17 \<lparr>message = py ''hi'', group = Some []\<rparr>
       = send app 17 \<lparr>message = py ''hi'', group = None\<rparr>
   \<and> disk (snd (send app 17 \<lparr>message = py ''hi'', group = Some []\<rparr>)) webhook_17
       = Some (File (json_dumps (payload (py ''123456789@g.us'') (py ''hi''))))"
proof -
  let ?req = "\<lparr>message = py ''hi'', group = Some []\<rparr>"
  note t = send_empty_group_as_omitted [of app 17 "\<lparr>message = py ''hi'', group = None\<rparr>"]
  have d: "DEFAULT_GROUP (settings app) = py ''dev''"
    by (simp add: app_facts(1) app_settings_def)
  from t d have n: "group_name (settings app) ?req = py ''dev''"
    by simp
  from t have q: "send app 17 ?req = send app 17 \<lparr>message = py ''hi'', group = None\<rparr>"
    by simp
  from n have n': "group_name app_settings ?req = py ''dev''"
    by (simp add: app_facts(1))
  have g: "GROUPS (settings app) (group_name (settings app) ?req) = Some (py ''123456789@g.us'')"
    by (simp add: n' app_facts)
  have w: "disk app (truediv (ipc_dir (settings app)) (filename 17)) \<noteq> Some Dir"
    using app_facts(4) by (simp add: app_facts(1) webhook_17_def)
  have i: "disk app (ipc_dir (settings app)) = Some Dir"
    by (simp add: app_facts)
  note s = send_success [OF g i w]
  have "status_code (fst (send app 17 ?req)) = 200"
    by (simp add: s)
  moreover have "disk (snd (send app 17 ?req)) webhook_17
                   = Some (File (json_dumps (payload (py ''123456789@g.us'') (py ''hi''))))"
    by (simp add: s webhook_17_def app_facts(1))
  ultimately show ?thesis
    using n q by simp
qed

subsection \<open>The written file, read back\<close>

text \<open>
  C5, amended. For every successful /send whose message and resolved identifier are
  strings in which no high surrogate code point is directly followed by a low surrogate
  code point, parsing the text of the written file yields exactly the object with
  \<open>type\<close> \<open>message\<close>, \<open>chatJid\<close> the identifier the mapping gives for the effective
  group, and \<open>text\<close> the message of the request; the returned path is that file's.
  \<open>valid_str\<close> says that the two lists of numbers are Python strings at all.
\<close>

theorem send_file_round_trip:
  assumes "fst (send st now_ms req) = Inr r"
    and "GROUPS (settings st) (group_name (settings st) req) = Some jid"
    and "valid_str jid" and "surrogate_pair_free jid"
    and "valid_str (message req)" and "surrogate_pair_free (message req)"
  shows "loads_file (disk (snd (send st now_ms req)))
             (truediv (ipc_dir (settings st)) (filename now_ms))
           = Inr [py ''type'' \<mapsto> py ''message'', py ''chatJid'' \<mapsto> jid,
                  py ''text'' \<mapsto> message req]
         \<and> file_path r = Some (str_path (truediv (ipc_dir (settings st)) (filename now_ms)))"
proof -
  note s = send_Inr [OF assms(1,2)]
  have "loads_file (disk (snd (send st now_ms req)))
            (truediv (ipc_dir (settings st)) (filename now_ms))
          = json_loads (json_dumps (payload jid (message req)))"
    by (simp add: s loads_file_def read_text_def)
  moreover have "file_path r = Some (str_path (truediv (ipc_dir (settings st)) (filename now_ms)))"
    using assms(1) by (auto simp: s)
  ultimately show ?thesis
    by (simp add: json_loads_payload [OF assms(3-6)])
qed

theorem send_file_round_trip_witness:
  "fst (send app 17 \<lparr>message = py ''hello world'', group = Some (py ''dev'')\<rparr>)
     = Inr \<lparr>ok = True, file_path = Some (str_path webhook_17)\<rparr>
   \<and> GROUPS (settings app)
         (group_name (settings app) \<lparr>message = py ''hello world'', group = Some (py ''dev'')\<rparr>)
       = Some (py ''123456789@g.us'')
   \<and> valid_str (py ''123456789@g.us'') \<and> surrogate_pair_free (py ''123456789@g.us'')
   \<and> valid_str (py ''hello world'') \<and> surrogate_pair_free (py ''hello world'')
   \<and> loads_file (disk (snd (send app 17 \<lparr>message = py ''hello world'', group = Some (py ''dev'')\<rparr>)))
         webhook_17
       = Inr [py ''type'' \<mapsto> py ''message'', py ''chatJid'' \<mapsto> py ''123456789@g.us'',
              py ''text'' \<mapsto> py ''hello world'']"
proof -
  let ?req = "\<lparr>message = py ''hello world'', group = Some (py ''dev'')\<rparr>"
  have n: "group_name cfg ?req = py ''dev''" for cfg
    by (simp add: group_name_def py_def)
  have g: "GROUPS (settings app) (group_name (settings app) ?req) = Some (py ''123456789@g.us'')"
    by (simp add: n app_facts)
  have w: "disk app (truediv (ipc_dir (settings app)) (filename 17)) \<noteq> Some Dir"
    using app_facts(4) by (simp add: app_facts(1) webhook_17_def)
  have d: "disk app (ipc_dir (settings app)) = Some Dir"
    by (simp add: app_facts)
  have r: "fst (send app 17 ?req) = Inr \<lparr>ok = True, file_path = Some (str_path webhook_17)\<rparr>"
    using send_success [OF g d w] by (simp add: webhook_17_def app_facts(1))
  have v: "valid_str (py ''123456789@g.us'')" "surrogate_pair_free (py ''123456789@g.us'')"
    "valid_str (message ?req)" "surrogate_pair_free (message ?req)"
    by (simp_all add: valid_str_def py_def high_surrogate_def)
  from send_file_round_trip [OF r g v] show ?thesis
    using r g v by (simp add: webhook_17_def app_facts(1))
qed

text \<open>
  Against C5 as stated: the message made of the two code points U+D83D and U+DE00 is
  written as two \<^verbatim>\<open>\uXXXX\<close> escapes, which the parser joins into the one code point
  U+1F600, so the parsed object is not the payload that was constructed.
\<close>

theorem send_file_round_trip_counterexample:
  "fst (send app 17 surrogates_request)
     = Inr \<lparr>ok = True, file_path = Some (str_path webhook_17)\<rparr>
   \<and> loads_file (disk (snd (send app 17 surrogates_request))) webhook_17
       = Inr [py ''type'' \<mapsto> py ''message'', py ''chatJid'' \<mapsto> py ''123456789@g.us'',
              py ''text'' \<mapsto> [0x1F600]]
   \<and> loads_file (disk (snd (send app 17 surrogates_request))) webhook_17
       \<noteq> Inr [py ''type'' \<mapsto> py ''message'', py ''chatJid'' \<mapsto> py ''123456789@g.us'',
              py ''text'' \<mapsto> message surrogates_request]"
proof -
  have n: "group_name cfg surrogates_request = py ''dev''" for cfg
    by (simp add: group_name_def surrogates_request_def py_def)
  have g: "GROUPS (settings app) (group_name (settings app) surrogates_request)
             = Some (py ''123456789@g.us'')"
    by (simp add: n app_facts)
  have w: "disk app (truediv (ipc_dir (settings app)) (filename 17)) \<noteq> Some Dir"
    using app_facts(4) by (simp add: app_facts(1) webhook_17_def)
  have d: "disk app (ipc_dir (settings app)) = Some Dir"
    by (simp add: app_facts)
  note s = send_success [OF g d w]
  have r: "fst (send app 17 surrogates_request)
             = Inr \<lparr>ok = True, file_path = Some (str_path webhook_17)\<rparr>"
    by (simp add: s webhook_17_def app_facts(1))
  have m: "message surrogates_request = [0xD83D, 0xDE00]"
    by (simp add: surrogates_request_def)
  have l: "loads_file (disk (snd (send app 17 surrogates_request))) webhook_17
             = Inr [py ''type'' \<mapsto> py ''message'', py ''chatJid'' \<mapsto> py ''123456789@g.us'',
                    py ''text'' \<mapsto> [0x1F600]]"
    by (simp add: s m webhook_17_def app_facts(1) loads_file_def read_text_def loads_surrogates)
  have "[py ''type'' \<mapsto> py ''message'', py ''chatJid'' \<mapsto> py ''123456789@g.us'',
         py ''text'' \<mapsto> [0x1F600]] (py ''text'')
          \<noteq> [py ''type'' \<mapsto> py ''message'', py ''chatJid'' \<mapsto> py ''123456789@g.us'',
              py ''text'' \<mapsto> message surrogates_request] (py ''text'')"
    by (simp add: m)
  then have "[py ''type'' \<mapsto> py ''message'', py ''chatJid'' \<mapsto> py ''123456789@g.us'',
              py ''text'' \<mapsto> [0x1F600]]
          \<noteq> [py ''type'' \<mapsto> py ''message'', py ''chatJid'' \<mapsto> py ''123456789@g.us'',
              py ''text'' \<mapsto> message surrogates_request]"
    by metis
  with r l show ?thesis
    by simp
qed

subsection \<open>The configuration loader\<close>



end
